theory Spec2Isabelle
  imports Complex_Main
begin

section \<open>The Ethereum system part of the economic model\<close>

text \<open>
  This theory embeds \<^verbatim>\<open>model/parts/ethereum.py\<close>: the two policy functions
  \<^verbatim>\<open>policy_network_issuance\<close> and \<^verbatim>\<open>policy_eip1559_transaction_pricing\<close> and the two
  state update functions \<^verbatim>\<open>update_eth_price\<close> and \<^verbatim>\<open>update_eth_supply\<close>.

  The source is written for any Python numbers. The model is generic in the type \<open>'n\<close>
  of the numbers of a run and uses the operations of that type, as the source uses
  Python's operators: at \<open>real\<close> the arithmetic is exact, at \<open>binary64\<close> every operation
  rounds as Python's \<^verbatim>\<open>float\<close> does. Parameters, states and policy inputs are Python
  dictionaries with string keys, modelled as maps; a missing key raises \<^verbatim>\<open>KeyError\<close>.
  Every exception of the source is a value of the type \<open>error\<close>.
\<close>

subsection \<open>Python floats\<close>

text \<open>
  A Python \<^verbatim>\<open>float\<close> is an IEEE 754 binary64 number: 53 significant bits, and every
  arithmetic operation returns the exact result rounded to the nearest representable
  number, a tie going to the even significand. \<open>round_binary64\<close> is that rounding on
  the reals, with the fixed spacing of the subnormal numbers below \<open>2 ^ - 1022\<close>.
  Infinities, NaN and the sign of zero are not modelled: a result beyond the largest
  finite float is outside the model.
\<close>

definition pow2 :: "int \<Rightarrow> real" where
  "pow2 k = (if 0 \<le> k then 2 ^ nat k else 1 / 2 ^ nat (- k))"

definition round_half_even :: "real \<Rightarrow> int" where
  "round_half_even q =
     (let f = \<lfloor>q\<rfloor>; d = q - of_int f
      in if d < 1 / 2 then f
         else if 1 / 2 < d then f + 1
         else if even f then f else f + 1)"

definition round_binary64 :: "real \<Rightarrow> real" where
  "round_binary64 x =
     (if x = 0 then 0
      else let e = max \<lfloor>log 2 \<bar>x\<bar>\<rfloor> (- 1022);
               ulp = pow2 (e - 52)
           in of_int (round_half_even (x / ulp)) * ulp)"

datatype binary64 = Float (float_value: real)

instantiation binary64 :: "{plus, minus, inverse}"
begin

definition plus_binary64 :: "binary64 \<Rightarrow> binary64 \<Rightarrow> binary64" where
  "a + b = Float (round_binary64 (float_value a + float_value b))"

definition minus_binary64 :: "binary64 \<Rightarrow> binary64 \<Rightarrow> binary64" where
  "a - b = Float (round_binary64 (float_value a - float_value b))"

definition divide_binary64 :: "binary64 \<Rightarrow> binary64 \<Rightarrow> binary64" where
  "a div b = Float (round_binary64 (float_value a / float_value b))"

definition inverse_binary64 :: "binary64 \<Rightarrow> binary64" where
  "inverse a = Float (round_binary64 (1 / float_value a))"

instance ..

end

instantiation binary64 :: mult_zero
begin

definition zero_binary64 :: binary64 where
  "0 = Float 0"

definition times_binary64 :: "binary64 \<Rightarrow> binary64 \<Rightarrow> binary64" where
  "a * b = Float (round_binary64 (float_value a * float_value b))"

instance
  by standard (simp_all add: zero_binary64_def times_binary64_def round_binary64_def)

end

instantiation binary64 :: linorder
begin

definition less_eq_binary64 :: "binary64 \<Rightarrow> binary64 \<Rightarrow> bool" where
  "a \<le> b \<longleftrightarrow> float_value a \<le> float_value b"

definition less_binary64 :: "binary64 \<Rightarrow> binary64 \<Rightarrow> bool" where
  "a < b \<longleftrightarrow> float_value a < float_value b"

instance
  by standard (auto simp add: less_eq_binary64_def less_binary64_def binary64.expand)

end

subsection \<open>Values, dictionaries and exceptions\<close>

text \<open>
  Modelled from the spec: the enumeration \<^verbatim>\<open>Stage\<close> of \<^verbatim>\<open>model/types.py\<close>, which is
  not part of the sources at hand. The source names the members \<^verbatim>\<open>BEACON_CHAIN\<close>,
  \<^verbatim>\<open>EIP1559\<close> and \<^verbatim>\<open>PROOF_OF_STAKE\<close>; the specification adds the baseline
  \<^verbatim>\<open>PROOF_OF_WORK\<close> and gives the order.
\<close>

datatype Stage = PROOF_OF_WORK | BEACON_CHAIN | EIP1559 | PROOF_OF_STAKE

text \<open>
  The values a dictionary holds: a number, a member of \<open>Stage\<close>, or a stochastic
  process, a function of the run and of the elapsed time that returns a sample.
\<close>

datatype 'n pyval = Num 'n | StageV Stage | Proc "'n \<Rightarrow> 'n \<Rightarrow> 'n"

type_synonym 'n pydict = "string \<rightharpoonup> 'n pyval"

datatype error =
    KeyError string
  | ValueError
  | TypeError
  | ZeroDivisionError
  | AssertionError string

type_synonym 'a result = "error + 'a"

text \<open>
  What the module imports and the sources at hand do not contain is a parameter of the
  model: the three constants of \<^verbatim>\<open>model/constants.py\<close> that the module reads, and the
  value that \<^verbatim>\<open>model/types.py\<close> gives to each member of \<open>Stage\<close>.
\<close>

record 'n model_env =
  gwei :: 'n
  epochs_per_day :: 'n
  slots_per_epoch :: 'n
  Stage_value :: "Stage \<Rightarrow> 'n"

definition bind_result :: "'a result \<Rightarrow> ('a \<Rightarrow> 'b result) \<Rightarrow> 'b result" where
  "bind_result m f = (case m of Inl e \<Rightarrow> Inl e | Inr x \<Rightarrow> f x)"

text \<open>\<^verbatim>\<open>d[k]\<close>\<close>

definition getitem :: "'n pydict \<Rightarrow> string \<Rightarrow> 'n pyval result" where
  "getitem d k = (case d k of None \<Rightarrow> Inl (KeyError k) | Some v \<Rightarrow> Inr v)"

text \<open>
  \<^verbatim>\<open>Stage(v)\<close>: a member is returned as it is, a number is looked up among the members'
  values in the order of their definition, and anything else is no valid \<open>Stage\<close>.
\<close>

definition Stage_call :: "'n model_env \<Rightarrow> 'n pyval \<Rightarrow> Stage result" where
  "Stage_call env v =
     (case v of
        StageV s \<Rightarrow> Inr s
      | Num x \<Rightarrow>
          (case find (\<lambda>s. Stage_value env s = x)
                  [PROOF_OF_WORK, BEACON_CHAIN, EIP1559, PROOF_OF_STAKE] of
             Some s \<Rightarrow> Inr s
           | None \<Rightarrow> Inl ValueError)
      | Proc p \<Rightarrow> Inl ValueError)"

text \<open>
  Arithmetic is defined on numbers only, by the operation of the number type;
  \<^verbatim>\<open>/\<close> raises on a zero divisor.
\<close>

definition py_add :: "'n::plus pyval \<Rightarrow> 'n pyval \<Rightarrow> 'n pyval result" where
  "py_add a b = (case (a, b) of (Num x, Num y) \<Rightarrow> Inr (Num (x + y)) | _ \<Rightarrow> Inl TypeError)"

definition py_sub :: "'n::minus pyval \<Rightarrow> 'n pyval \<Rightarrow> 'n pyval result" where
  "py_sub a b = (case (a, b) of (Num x, Num y) \<Rightarrow> Inr (Num (x - y)) | _ \<Rightarrow> Inl TypeError)"

definition py_mul :: "'n::mult_zero pyval \<Rightarrow> 'n pyval \<Rightarrow> 'n pyval result" where
  "py_mul a b = (case (a, b) of (Num x, Num y) \<Rightarrow> Inr (Num (x * y)) | _ \<Rightarrow> Inl TypeError)"

definition py_truediv :: "'n::{inverse,zero} pyval \<Rightarrow> 'n pyval \<Rightarrow> 'n pyval result" where
  "py_truediv a b =
     (case (a, b) of
        (Num x, Num y) \<Rightarrow> if y = 0 then Inl ZeroDivisionError else Inr (Num (x / y))
      | _ \<Rightarrow> Inl TypeError)"

definition py_le :: "'n::linorder pyval \<Rightarrow> 'n pyval \<Rightarrow> bool result" where
  "py_le a b = (case (a, b) of (Num x, Num y) \<Rightarrow> Inr (x \<le> y) | _ \<Rightarrow> Inl TypeError)"

subsection \<open>Calls of the stochastic processes\<close>

text \<open>
  A function that samples a process returns, beside its result, the calls it has made,
  in order: the parameter key of the process, the run and the time. The calls made
  before an exception are kept.
\<close>

type_synonym 'n call = "string \<times> 'n \<times> 'n"

type_synonym ('n, 'a) exec = "'n call list \<times> 'a result"

definition bind_exec :: "('n, 'a) exec \<Rightarrow> ('a \<Rightarrow> ('n, 'b) exec) \<Rightarrow> ('n, 'b) exec" where
  "bind_exec m f =
     (case m of
        (calls, Inl e) \<Rightarrow> (calls, Inl e)
      | (calls, Inr x) \<Rightarrow> (case f x of (calls', r) \<Rightarrow> (calls @ calls', r)))"

definition no_call :: "'a result \<Rightarrow> ('n, 'a) exec" where
  "no_call r = ([], r)"

text \<open>\<^verbatim>\<open>process(run, time)\<close>, for the process stored under the parameter key \<open>k\<close>.\<close>

definition call_process ::
  "string \<Rightarrow> 'n pyval \<Rightarrow> 'n pyval \<Rightarrow> 'n pyval \<Rightarrow> ('n, 'n pyval) exec" where
  "call_process k process run time =
     (case (process, run, time) of
        (Proc p, Num r, Num t) \<Rightarrow> ([(k, r, t)], Inr (Num (p r t)))
      | _ \<Rightarrow> ([], Inl TypeError))"

subsection \<open>Policy functions\<close>

definition policy_network_issuance ::
  "'n::{mult_zero,plus,minus,inverse} model_env \<Rightarrow> 'n pydict \<Rightarrow> 'a \<Rightarrow> 'b \<Rightarrow> 'n pydict \<Rightarrow>
     'n pydict result" where
  "policy_network_issuance env params substep state_history previous_state =
     bind_result (getitem params ''dt'') (\<lambda>dt.
     bind_result (getitem params ''daily_pow_issuance'') (\<lambda>daily_pow_issuance.
     bind_result (getitem previous_state ''stage'') (\<lambda>stage.
     bind_result (getitem previous_state ''amount_slashed'') (\<lambda>amount_slashed.
     bind_result (getitem previous_state ''total_basefee'') (\<lambda>total_basefee.
     bind_result (getitem previous_state ''total_tips_to_validators'')
       (\<lambda>total_tips_to_validators.
     bind_result (getitem previous_state ''total_online_validator_rewards'')
       (\<lambda>total_online_validator_rewards.
     bind_result (py_sub total_online_validator_rewards total_tips_to_validators) (\<lambda>d1.
     bind_result (py_sub d1 amount_slashed) (\<lambda>d2.
     bind_result (py_sub d2 total_basefee) (\<lambda>d3.
     bind_result (py_truediv d3 (Num (gwei env))) (\<lambda>network_issuance.
     bind_result (Stage_call env stage) (\<lambda>stage_member.
     bind_result
       (if stage_member \<in> set [BEACON_CHAIN, EIP1559]
        then py_truediv daily_pow_issuance (Num (epochs_per_day env))
        else Inr (Num 0)) (\<lambda>pow_issuance.
     bind_result (py_mul pow_issuance dt) (\<lambda>pow_total.
     bind_result (py_add network_issuance pow_total) (\<lambda>network_issuance.
     Inr [''network_issuance'' \<mapsto> network_issuance,
          ''pow_issuance'' \<mapsto> pow_issuance])))))))))))))))"

definition policy_eip1559_transaction_pricing ::
  "'n::{linorder,mult_zero,inverse} model_env \<Rightarrow> 'n pydict \<Rightarrow> 'a \<Rightarrow> 'b \<Rightarrow> 'n pydict \<Rightarrow>
     ('n, 'n pydict) exec" where
  "policy_eip1559_transaction_pricing env params substep state_history previous_state =
     bind_exec (no_call (getitem previous_state ''stage'')) (\<lambda>stage_value.
     bind_exec (no_call (Stage_call env stage_value)) (\<lambda>stage.
     if \<not> stage \<in> set [EIP1559, PROOF_OF_STAKE] then
       no_call (Inr [''basefee'' \<mapsto> Num 0,
                     ''total_basefee'' \<mapsto> Num 0,
                     ''total_tips_to_miners'' \<mapsto> Num 0,
                     ''total_tips_to_validators'' \<mapsto> Num 0])
     else
     bind_exec (no_call (getitem params ''dt'')) (\<lambda>dt.
     bind_exec (no_call (getitem params ''gas_target'')) (\<lambda>gas_target.
     bind_exec (no_call (getitem params ''ELASTICITY_MULTIPLIER'')) (\<lambda>ELASTICITY_MULTIPLIER.
     bind_exec (no_call (getitem params ''BASE_FEE_MAX_CHANGE_DENOMINATOR''))
       (\<lambda>BASE_FEE_MAX_CHANGE_DENOMINATOR.
     bind_exec (no_call (getitem params ''eip1559_basefee_process''))
       (\<lambda>eip1559_basefee_process.
     bind_exec (no_call (getitem params ''eip1559_tip_process'')) (\<lambda>eip1559_tip_process.
     bind_exec (no_call (getitem params ''daily_transactions_process''))
       (\<lambda>daily_transactions_process.
     bind_exec (no_call (getitem params ''transaction_average_gas''))
       (\<lambda>transaction_average_gas.
     bind_exec (no_call (getitem previous_state ''run'')) (\<lambda>run.
     bind_exec (no_call (getitem previous_state ''timestep'')) (\<lambda>timestep.
     bind_exec (no_call (getitem previous_state ''basefee'')) (\<lambda>previous_basefee.
     bind_exec (no_call (py_mul timestep dt)) (\<lambda>time.
     bind_exec (call_process ''eip1559_basefee_process'' eip1559_basefee_process run time)
       (\<lambda>basefee.
     bind_exec (no_call (py_mul timestep dt)) (\<lambda>time.
     bind_exec (call_process ''eip1559_tip_process'' eip1559_tip_process run time)
       (\<lambda>avg_tip_amount.
     bind_exec (no_call (py_mul timestep dt)) (\<lambda>time.
     bind_exec
       (call_process ''daily_transactions_process'' daily_transactions_process run time)
       (\<lambda>transactions_per_day.
     bind_exec (no_call (py_truediv transactions_per_day (Num (epochs_per_day env))))
       (\<lambda>transactions_per_epoch.
     bind_exec (no_call (py_mul transactions_per_epoch transaction_average_gas))
       (\<lambda>gas_used.
     bind_exec (no_call (py_mul gas_used basefee)) (\<lambda>total_basefee.
     bind_exec (no_call (py_mul gas_used avg_tip_amount)) (\<lambda>total_tips.
     case (if stage \<in> set [PROOF_OF_STAKE] then (Num 0, total_tips)
           else (total_tips, Num 0)) of
       (total_tips_to_miners, total_tips_to_validators) \<Rightarrow>
     bind_exec (no_call (py_mul gas_target ELASTICITY_MULTIPLIER)) (\<lambda>limit1.
     bind_exec (no_call (py_mul limit1 (Num (slots_per_epoch env)))) (\<lambda>limit.
     bind_exec (no_call (py_le gas_used limit)) (\<lambda>within_limit.
     if \<not> within_limit then
       no_call (Inl (AssertionError ''invalid block: too much gas used''))
     else
     bind_exec (no_call (py_mul total_basefee dt)) (\<lambda>total_basefee_dt.
     bind_exec (no_call (py_mul total_tips_to_miners dt)) (\<lambda>total_tips_to_miners_dt.
     bind_exec (no_call (py_mul total_tips_to_validators dt))
       (\<lambda>total_tips_to_validators_dt.
     no_call (Inr [''basefee'' \<mapsto> basefee,
                   ''total_basefee'' \<mapsto> total_basefee_dt,
                   ''total_tips_to_miners'' \<mapsto> total_tips_to_miners_dt,
                   ''total_tips_to_validators'' \<mapsto> total_tips_to_validators_dt])
     )))))))))))))))))))))))))))))"

subsection \<open>State update functions\<close>

definition update_eth_price ::
  "'n::mult_zero pydict \<Rightarrow> 'a \<Rightarrow> 'b \<Rightarrow> 'n pydict \<Rightarrow> 'n pydict \<Rightarrow>
     ('n, string \<times> 'n pyval) exec" where
  "update_eth_price params substep state_history previous_state policy_input =
     bind_exec (no_call (getitem params ''dt'')) (\<lambda>dt.
     bind_exec (no_call (getitem params ''eth_price_process'')) (\<lambda>eth_price_process.
     bind_exec (no_call (getitem previous_state ''run'')) (\<lambda>run.
     bind_exec (no_call (getitem previous_state ''timestep'')) (\<lambda>timestep.
     bind_exec (no_call (py_mul timestep dt)) (\<lambda>time.
     bind_exec (call_process ''eth_price_process'' eth_price_process run time)
       (\<lambda>eth_price_sample.
     no_call (Inr (''eth_price'', eth_price_sample))))))))"

definition update_eth_supply ::
  "'n::plus pydict \<Rightarrow> 'a \<Rightarrow> 'b \<Rightarrow> 'n pydict \<Rightarrow> 'n pydict \<Rightarrow>
     (string \<times> 'n pyval) result" where
  "update_eth_supply params substep state_history previous_state policy_input =
     bind_result (getitem policy_input ''network_issuance'') (\<lambda>network_issuance.
     bind_result (getitem previous_state ''eth_supply'') (\<lambda>eth_supply.
     bind_result (py_add eth_supply network_issuance) (\<lambda>new_supply.
     Inr (''eth_supply'', new_supply))))"

subsection \<open>Iterating the supply updater\<close>

text \<open>
  The engine applies the updaters once per timestep and stores the returned pair in the
  next state. \<open>apply_issuances\<close> does so for the supply updater over the issuance
  values of consecutive timesteps; the other entries of the policy input are arbitrary.
\<close>

fun apply_issuances ::
  "'n::plus pydict \<Rightarrow> 'n pydict \<Rightarrow> 'n pydict \<Rightarrow> 'n list \<Rightarrow> 'n pydict result" where
  "apply_issuances params policy_input previous_state [] = Inr previous_state"
| "apply_issuances params policy_input previous_state (i # issuances) =
     (case update_eth_supply params () ()
             previous_state (policy_input(''network_issuance'' \<mapsto> Num i)) of
        Inl e \<Rightarrow> Inl e
      | Inr (k, v) \<Rightarrow> apply_issuances params policy_input (previous_state(k \<mapsto> v)) issuances)"

subsection \<open>Well-formed inputs of the fee pricing policy\<close>

text \<open>
  The typed reading of a parameters mapping and a previous state in a fee-market-active
  stage: every key the policy reads is present and holds a value of the expected kind.
\<close>

record 'n fee_inputs =
  fi_stage :: Stage
  fi_dt :: 'n
  fi_gas_target :: 'n
  fi_ELASTICITY_MULTIPLIER :: 'n
  fi_BASE_FEE_MAX_CHANGE_DENOMINATOR :: 'n
  fi_basefee_process :: "'n \<Rightarrow> 'n \<Rightarrow> 'n"
  fi_tip_process :: "'n \<Rightarrow> 'n \<Rightarrow> 'n"
  fi_transactions_process :: "'n \<Rightarrow> 'n \<Rightarrow> 'n"
  fi_transaction_average_gas :: 'n
  fi_run :: 'n
  fi_timestep :: 'n
  fi_previous_basefee :: 'n

definition fee_market_input ::
  "'n::zero model_env \<Rightarrow> 'n pydict \<Rightarrow> 'n pydict \<Rightarrow> 'n fee_inputs \<Rightarrow> bool" where
  "fee_market_input env params previous_state i \<longleftrightarrow>
     (\<exists>v. previous_state ''stage'' = Some v \<and> Stage_call env v = Inr (fi_stage i)) \<and>
     (fi_stage i = EIP1559 \<or> fi_stage i = PROOF_OF_STAKE) \<and>
     params ''dt'' = Some (Num (fi_dt i)) \<and>
     params ''gas_target'' = Some (Num (fi_gas_target i)) \<and>
     params ''ELASTICITY_MULTIPLIER'' = Some (Num (fi_ELASTICITY_MULTIPLIER i)) \<and>
     params ''BASE_FEE_MAX_CHANGE_DENOMINATOR'' =
       Some (Num (fi_BASE_FEE_MAX_CHANGE_DENOMINATOR i)) \<and>
     params ''eip1559_basefee_process'' = Some (Proc (fi_basefee_process i)) \<and>
     params ''eip1559_tip_process'' = Some (Proc (fi_tip_process i)) \<and>
     params ''daily_transactions_process'' = Some (Proc (fi_transactions_process i)) \<and>
     params ''transaction_average_gas'' = Some (Num (fi_transaction_average_gas i)) \<and>
     previous_state ''run'' = Some (Num (fi_run i)) \<and>
     previous_state ''timestep'' = Some (Num (fi_timestep i)) \<and>
     previous_state ''basefee'' = Some (Num (fi_previous_basefee i)) \<and>
     epochs_per_day env \<noteq> 0"

text \<open>The quantities of the policy, as the source computes them from these inputs.\<close>

definition sample_time :: "'n::mult_zero fee_inputs \<Rightarrow> 'n" where
  "sample_time i = fi_timestep i * fi_dt i"

definition sampled_basefee :: "'n::mult_zero fee_inputs \<Rightarrow> 'n" where
  "sampled_basefee i = fi_basefee_process i (fi_run i) (sample_time i)"

definition sampled_tip :: "'n::mult_zero fee_inputs \<Rightarrow> 'n" where
  "sampled_tip i = fi_tip_process i (fi_run i) (sample_time i)"

definition sampled_transactions :: "'n::mult_zero fee_inputs \<Rightarrow> 'n" where
  "sampled_transactions i = fi_transactions_process i (fi_run i) (sample_time i)"

definition gas_used :: "'n::{mult_zero,inverse} model_env \<Rightarrow> 'n fee_inputs \<Rightarrow> 'n" where
  "gas_used env i =
     sampled_transactions i / epochs_per_day env * fi_transaction_average_gas i"

definition gas_limit :: "'n::mult_zero model_env \<Rightarrow> 'n fee_inputs \<Rightarrow> 'n" where
  "gas_limit env i = fi_gas_target i * fi_ELASTICITY_MULTIPLIER i * slots_per_epoch env"

definition total_tips :: "'n::{mult_zero,inverse} model_env \<Rightarrow> 'n fee_inputs \<Rightarrow> 'n" where
  "total_tips env i = gas_used env i * sampled_tip i"

definition sample_calls :: "'n::mult_zero fee_inputs \<Rightarrow> 'n call list" where
  "sample_calls i =
     [(''eip1559_basefee_process'', fi_run i, sample_time i),
      (''eip1559_tip_process'', fi_run i, sample_time i),
      (''daily_transactions_process'', fi_run i, sample_time i)]"

subsection \<open>A concrete scenario\<close>

text \<open>
  The end-to-end scenario of the specification, in exact arithmetic: \<open>dt = 1\<close>, stage \<open>EIP1559\<close>, a gas target
  of 15 million, an elasticity multiplier of 2, 21000 gas per transaction, and constant
  samples: a base fee of 100, a tip of 2 and 1000 transactions per epoch. The scenario
  is in its second timestep and the previous base fee is 1.
\<close>

definition scenario_env :: "real model_env" where
  "scenario_env =
     \<lparr>gwei = 1000000000, epochs_per_day = 225, slots_per_epoch = 32,
      Stage_value = (\<lambda>s. case s of PROOF_OF_WORK \<Rightarrow> 1 | BEACON_CHAIN \<Rightarrow> 2
                               | EIP1559 \<Rightarrow> 3 | PROOF_OF_STAKE \<Rightarrow> 4)\<rparr>"

definition constant_process :: "real \<Rightarrow> real \<Rightarrow> real \<Rightarrow> real" where
  "constant_process c run time = c"

definition ramp_process :: "real \<Rightarrow> real \<Rightarrow> real \<Rightarrow> real" where
  "ramp_process c run time = c + run * time"

definition scenario_params :: "real pydict" where
  "scenario_params =
     [''dt'' \<mapsto> Num 1,
      ''daily_pow_issuance'' \<mapsto> Num 13500,
      ''gas_target'' \<mapsto> Num 15000000,
      ''ELASTICITY_MULTIPLIER'' \<mapsto> Num 2,
      ''BASE_FEE_MAX_CHANGE_DENOMINATOR'' \<mapsto> Num 8,
      ''transaction_average_gas'' \<mapsto> Num 21000,
      ''eip1559_basefee_process'' \<mapsto> Proc (constant_process 100),
      ''eip1559_tip_process'' \<mapsto> Proc (constant_process 2),
      ''daily_transactions_process'' \<mapsto> Proc (constant_process 225000),
      ''eth_price_process'' \<mapsto> Proc (ramp_process 3000)]"

definition scenario_state :: "real pydict" where
  "scenario_state =
     [''stage'' \<mapsto> StageV EIP1559,
      ''run'' \<mapsto> Num 1,
      ''timestep'' \<mapsto> Num 2,
      ''basefee'' \<mapsto> Num 1,
      ''amount_slashed'' \<mapsto> Num 1000000000,
      ''total_basefee'' \<mapsto> Num 2000000000,
      ''total_tips_to_validators'' \<mapsto> Num 3000000000,
      ''total_online_validator_rewards'' \<mapsto> Num 10000000000,
      ''eth_price'' \<mapsto> Num 3000,
      ''eth_supply'' \<mapsto> Num 116250000]"

definition scenario_inputs :: "real fee_inputs" where
  "scenario_inputs =
     \<lparr>fi_stage = EIP1559, fi_dt = 1, fi_gas_target = 15000000,
      fi_ELASTICITY_MULTIPLIER = 2, fi_BASE_FEE_MAX_CHANGE_DENOMINATOR = 8,
      fi_basefee_process = constant_process 100, fi_tip_process = constant_process 2,
      fi_transactions_process = constant_process 225000,
      fi_transaction_average_gas = 21000, fi_run = 1, fi_timestep = 2,
      fi_previous_basefee = 1\<rparr>"

section \<open>Properties\<close>

subsection \<open>Evaluation rules\<close>

lemma bind_result_Inr: "bind_result (Inr x) f = f x"
  by (simp add: bind_result_def)

lemma bind_result_Inl: "bind_result (Inl e) f = Inl e"
  by (simp add: bind_result_def)

lemma bind_exec_no_call_Inr: "bind_exec (no_call (Inr x)) f = f x"
  by (simp add: bind_exec_def no_call_def split: prod.split)

lemma bind_exec_no_call_Inl: "bind_exec (no_call (Inl e)) f = ([], Inl e)"
  by (simp add: bind_exec_def no_call_def)

lemma bind_exec_call: "bind_exec (cs, Inr x) f = (cs @ fst (f x), snd (f x))"
  by (simp add: bind_exec_def split: prod.split)

lemma getitem_Some: "d k = Some v \<Longrightarrow> getitem d k = Inr v"
  by (simp add: getitem_def)

lemma getitem_upd: "getitem (d(k \<mapsto> v)) k' = (if k' = k then Inr v else getitem d k')"
  by (simp add: getitem_def)

lemma py_add_Num: "py_add (Num x) (Num y) = Inr (Num (x + y))"
  by (simp add: py_add_def)

lemma py_sub_Num: "py_sub (Num x) (Num y) = Inr (Num (x - y))"
  by (simp add: py_sub_def)

lemma py_mul_Num: "py_mul (Num x) (Num y) = Inr (Num (x * y))"
  by (simp add: py_mul_def)

lemma py_le_Num: "py_le (Num x) (Num y) = Inr (x \<le> y)"
  by (simp add: py_le_def)

lemma py_truediv_Num: "y \<noteq> 0 \<Longrightarrow> py_truediv (Num x) (Num y) = Inr (Num (x / y))"
  by (simp add: py_truediv_def)

lemmas py_arith_Num = py_add_Num py_sub_Num py_mul_Num py_le_Num py_truediv_Num

lemma call_process_Proc:
  "call_process k (Proc p) (Num r) (Num t) = ([(k, r, t)], Inr (Num (p r t)))"
  by (simp add: call_process_def)

lemmas exec_simps =
  bind_result_Inr bind_result_Inl bind_exec_no_call_Inr bind_exec_no_call_Inl
  bind_exec_call getitem_Some py_arith_Num call_process_Proc

subsection \<open>The policies on well-formed inputs\<close>

lemma issuance_wf:
  assumes "params ''dt'' = Some (Num dt)"
    and "params ''daily_pow_issuance'' = Some (Num daily_pow_issuance)"
    and "previous_state ''stage'' = Some stage"
    and "Stage_call env stage = Inr s"
    and "previous_state ''amount_slashed'' = Some (Num amount_slashed)"
    and "previous_state ''total_basefee'' = Some (Num total_basefee)"
    and "previous_state ''total_tips_to_validators'' = Some (Num total_tips_to_validators)"
    and "previous_state ''total_online_validator_rewards'' =
           Some (Num total_online_validator_rewards)"
    and "gwei env \<noteq> 0" and "epochs_per_day env \<noteq> 0"
  shows "policy_network_issuance env params substep state_history previous_state =
     Inr [''network_issuance'' \<mapsto>
            Num (((total_online_validator_rewards - total_tips_to_validators)
                  - amount_slashed - total_basefee) / gwei env
                 + (if s = BEACON_CHAIN \<or> s = EIP1559
                    then daily_pow_issuance / epochs_per_day env else 0) * dt),
          ''pow_issuance'' \<mapsto>
            Num (if s = BEACON_CHAIN \<or> s = EIP1559
                 then daily_pow_issuance / epochs_per_day env else 0)]"
  using assms by (simp add: policy_network_issuance_def exec_simps)

lemma fee_pricing_wf:
  assumes "fee_market_input env params previous_state i"
  shows "policy_eip1559_transaction_pricing env params substep state_history previous_state =
     (sample_calls i,
      if gas_used env i \<le> gas_limit env i then
        Inr [''basefee'' \<mapsto> Num (sampled_basefee i),
             ''total_basefee'' \<mapsto> Num (gas_used env i * sampled_basefee i * fi_dt i),
             ''total_tips_to_miners'' \<mapsto>
               Num (if fi_stage i = PROOF_OF_STAKE then 0 else total_tips env i * fi_dt i),
             ''total_tips_to_validators'' \<mapsto>
               Num (if fi_stage i = PROOF_OF_STAKE then total_tips env i * fi_dt i else 0)]
      else Inl (AssertionError ''invalid block: too much gas used''))"
proof -
  from assms obtain v where v: "previous_state ''stage'' = Some v"
    "Stage_call env v = Inr (fi_stage i)"
    by (auto simp: fee_market_input_def)
  from assms have rest:
    "fi_stage i = EIP1559 \<or> fi_stage i = PROOF_OF_STAKE"
    "params ''dt'' = Some (Num (fi_dt i))"
    "params ''gas_target'' = Some (Num (fi_gas_target i))"
    "params ''ELASTICITY_MULTIPLIER'' = Some (Num (fi_ELASTICITY_MULTIPLIER i))"
    "params ''BASE_FEE_MAX_CHANGE_DENOMINATOR'' =
       Some (Num (fi_BASE_FEE_MAX_CHANGE_DENOMINATOR i))"
    "params ''eip1559_basefee_process'' = Some (Proc (fi_basefee_process i))"
    "params ''eip1559_tip_process'' = Some (Proc (fi_tip_process i))"
    "params ''daily_transactions_process'' = Some (Proc (fi_transactions_process i))"
    "params ''transaction_average_gas'' = Some (Num (fi_transaction_average_gas i))"
    "previous_state ''run'' = Some (Num (fi_run i))"
    "previous_state ''timestep'' = Some (Num (fi_timestep i))"
    "previous_state ''basefee'' = Some (Num (fi_previous_basefee i))"
    "epochs_per_day env \<noteq> 0"
    by (simp_all add: fee_market_input_def)
  show ?thesis
    unfolding policy_eip1559_transaction_pricing_def
    using v rest
    by (auto simp add: exec_simps no_call_def sample_calls_def sample_time_def
        sampled_basefee_def sampled_tip_def sampled_transactions_def gas_used_def
        gas_limit_def total_tips_def)
qed

lemma fee_pricing_inactive:
  assumes "previous_state ''stage'' = Some v" and "Stage_call env v = Inr s"
    and "s \<noteq> EIP1559" and "s \<noteq> PROOF_OF_STAKE"
  shows "policy_eip1559_transaction_pricing env params substep state_history previous_state =
     ([], Inr [''basefee'' \<mapsto> Num 0, ''total_basefee'' \<mapsto> Num 0,
               ''total_tips_to_miners'' \<mapsto> Num 0, ''total_tips_to_validators'' \<mapsto> Num 0])"
  using assms by (simp add: policy_eip1559_transaction_pricing_def exec_simps no_call_def)

subsection \<open>The scenario is well formed\<close>

lemma scenario_fee_market_input:
  assumes "s = EIP1559 \<or> s = PROOF_OF_STAKE"
  shows "fee_market_input scenario_env (scenario_params(''gas_target'' \<mapsto> Num g))
           (scenario_state(''stage'' \<mapsto> StageV s))
           (scenario_inputs\<lparr>fi_stage := s, fi_gas_target := g\<rparr>)"
  using assms
  by (simp add: fee_market_input_def scenario_env_def scenario_params_def
      scenario_state_def scenario_inputs_def Stage_call_def)

lemma scenario_quantities:
  "gas_used scenario_env (scenario_inputs\<lparr>fi_stage := s, fi_gas_target := g\<rparr>) = 21000000"
  "gas_limit scenario_env (scenario_inputs\<lparr>fi_stage := s, fi_gas_target := g\<rparr>) = g * 64"
  "total_tips scenario_env (scenario_inputs\<lparr>fi_stage := s, fi_gas_target := g\<rparr>) = 42000000"
  "sampled_basefee (scenario_inputs\<lparr>fi_stage := s, fi_gas_target := g\<rparr>) = 100"
  "sample_calls (scenario_inputs\<lparr>fi_stage := s, fi_gas_target := g\<rparr>) =
     [(''eip1559_basefee_process'', 1, 2), (''eip1559_tip_process'', 1, 2),
      (''daily_transactions_process'', 1, 2)]"
  "fi_dt (scenario_inputs\<lparr>fi_stage := s, fi_gas_target := g\<rparr>) = 1"
  by (simp_all add: gas_used_def gas_limit_def total_tips_def sampled_basefee_def
      sampled_tip_def sampled_transactions_def sample_calls_def sample_time_def
      scenario_env_def scenario_inputs_def constant_process_def)

subsection \<open>Issuance policy\<close>

text \<open>
  Claim C1. For well-formed parameters and previous state (every key the policy reads
  holds a number, the stage is a valid \<open>Stage\<close>, and the two conversion constants are
  not zero), the issuance policy returns a \<open>network_issuance\<close> equal to
  \<open>((total_online_validator_rewards - total_tips_to_validators) - amount_slashed -
  total_basefee) / gwei + pow_issuance * dt\<close>, where \<open>pow_issuance\<close> is the value it
  returns under that key: aggregates in Gwei, result in ETH.
\<close>

theorem network_issuance_value:
  assumes "params ''dt'' = Some (Num dt)"
    and "params ''daily_pow_issuance'' = Some (Num daily_pow_issuance)"
    and "previous_state ''stage'' = Some stage"
    and "Stage_call env stage = Inr s"
    and "previous_state ''amount_slashed'' = Some (Num amount_slashed)"
    and "previous_state ''total_basefee'' = Some (Num total_basefee)"
    and "previous_state ''total_tips_to_validators'' = Some (Num total_tips_to_validators)"
    and "previous_state ''total_online_validator_rewards'' =
           Some (Num total_online_validator_rewards)"
    and "gwei env \<noteq> 0" and "epochs_per_day env \<noteq> 0"
  shows "\<exists>d pow_issuance.
     policy_network_issuance env params substep state_history previous_state = Inr d \<and>
     d ''pow_issuance'' = Some (Num pow_issuance) \<and>
     d ''network_issuance'' =
       Some (Num (((total_online_validator_rewards - total_tips_to_validators)
                   - amount_slashed - total_basefee) / gwei env
                  + pow_issuance * dt))"
  by (simp add: issuance_wf [OF assms])

theorem network_issuance_value_witness:
  "scenario_params ''dt'' = Some (Num 1) \<and>
   scenario_params ''daily_pow_issuance'' = Some (Num 13500) \<and>
   scenario_state ''stage'' = Some (StageV EIP1559) \<and>
   Stage_call scenario_env (StageV EIP1559) = Inr EIP1559 \<and>
   scenario_state ''amount_slashed'' = Some (Num 1000000000) \<and>
   scenario_state ''total_basefee'' = Some (Num 2000000000) \<and>
   scenario_state ''total_tips_to_validators'' = Some (Num 3000000000) \<and>
   scenario_state ''total_online_validator_rewards'' = Some (Num 10000000000) \<and>
   gwei scenario_env \<noteq> 0 \<and> epochs_per_day scenario_env \<noteq> 0 \<and>
   (\<exists>d pow_issuance.
      policy_network_issuance scenario_env scenario_params () () scenario_state = Inr d \<and>
      d ''pow_issuance'' = Some (Num pow_issuance) \<and>
      d ''network_issuance'' =
        Some (Num (((10000000000 - 3000000000) - 1000000000 - 2000000000) / 1000000000
                   + pow_issuance * 1)))"
proof -
  have h:
    "scenario_params ''dt'' = Some (Num 1)"
    "scenario_params ''daily_pow_issuance'' = Some (Num 13500)"
    "scenario_state ''stage'' = Some (StageV EIP1559)"
    "Stage_call scenario_env (StageV EIP1559) = Inr EIP1559"
    "scenario_state ''amount_slashed'' = Some (Num 1000000000)"
    "scenario_state ''total_basefee'' = Some (Num 2000000000)"
    "scenario_state ''total_tips_to_validators'' = Some (Num 3000000000)"
    "scenario_state ''total_online_validator_rewards'' = Some (Num 10000000000)"
    "gwei scenario_env \<noteq> 0" "epochs_per_day scenario_env \<noteq> 0"
    by (simp_all add: scenario_params_def scenario_state_def scenario_env_def Stage_call_def)
  have g: "gwei scenario_env = 1000000000"
    by (simp add: scenario_env_def)
  from network_issuance_value [OF h, of "()" "()"] h show ?thesis
    unfolding g by simp
qed

text \<open>
  Claim C6. On the same inputs, the returned \<open>pow_issuance\<close> is
  \<open>daily_pow_issuance / epochs_per_day\<close> when the stage is \<open>BEACON_CHAIN\<close> or
  \<open>EIP1559\<close>, and 0 for every other stage.
\<close>

theorem pow_issuance_value:
  assumes "params ''dt'' = Some (Num dt)"
    and "params ''daily_pow_issuance'' = Some (Num daily_pow_issuance)"
    and "previous_state ''stage'' = Some stage"
    and "Stage_call env stage = Inr s"
    and "previous_state ''amount_slashed'' = Some (Num amount_slashed)"
    and "previous_state ''total_basefee'' = Some (Num total_basefee)"
    and "previous_state ''total_tips_to_validators'' = Some (Num total_tips_to_validators)"
    and "previous_state ''total_online_validator_rewards'' =
           Some (Num total_online_validator_rewards)"
    and "gwei env \<noteq> 0" and "epochs_per_day env \<noteq> 0"
  shows "\<exists>d. policy_network_issuance env params substep state_history previous_state = Inr d \<and>
     d ''pow_issuance'' =
       Some (Num (if s = BEACON_CHAIN \<or> s = EIP1559
                  then daily_pow_issuance / epochs_per_day env else 0))"
  by (simp add: issuance_wf [OF assms])

theorem pow_issuance_value_witness:
  "(\<exists>d. policy_network_issuance scenario_env scenario_params () () scenario_state = Inr d \<and>
        d ''pow_issuance'' = Some (Num 60)) \<and>
   (\<exists>d. policy_network_issuance scenario_env scenario_params () ()
          (scenario_state(''stage'' \<mapsto> Num 4)) = Inr d \<and>
        d ''pow_issuance'' = Some (Num 0))"
proof -
  have p:
    "scenario_params ''dt'' = Some (Num 1)"
    "scenario_params ''daily_pow_issuance'' = Some (Num 13500)"
    by (simp_all add: scenario_params_def)
  have e: "gwei scenario_env \<noteq> 0" "epochs_per_day scenario_env \<noteq> 0"
    "epochs_per_day scenario_env = 225"
    by (simp_all add: scenario_env_def)
  have s1:
    "scenario_state ''stage'' = Some (StageV EIP1559)"
    "Stage_call scenario_env (StageV EIP1559) = Inr EIP1559"
    "scenario_state ''amount_slashed'' = Some (Num 1000000000)"
    "scenario_state ''total_basefee'' = Some (Num 2000000000)"
    "scenario_state ''total_tips_to_validators'' = Some (Num 3000000000)"
    "scenario_state ''total_online_validator_rewards'' = Some (Num 10000000000)"
    by (simp_all add: scenario_state_def Stage_call_def)
  have s2:
    "(scenario_state(''stage'' \<mapsto> Num 4)) ''stage'' = Some (Num 4)"
    "Stage_call scenario_env (Num 4) = Inr PROOF_OF_STAKE"
    "(scenario_state(''stage'' \<mapsto> Num 4)) ''amount_slashed'' = Some (Num 1000000000)"
    "(scenario_state(''stage'' \<mapsto> Num 4)) ''total_basefee'' = Some (Num 2000000000)"
    "(scenario_state(''stage'' \<mapsto> Num 4)) ''total_tips_to_validators'' =
       Some (Num 3000000000)"
    "(scenario_state(''stage'' \<mapsto> Num 4)) ''total_online_validator_rewards'' =
       Some (Num 10000000000)"
    by (simp_all add: scenario_state_def scenario_env_def Stage_call_def)
  from pow_issuance_value [OF p s1 e(1,2), of "()" "()"] obtain d1 where d1:
    "policy_network_issuance scenario_env scenario_params () () scenario_state = Inr d1"
    "d1 ''pow_issuance'' =
       Some (Num (if EIP1559 = BEACON_CHAIN \<or> EIP1559 = EIP1559
                  then 13500 / epochs_per_day scenario_env else 0))"
    by blast
  from pow_issuance_value [OF p s2 e(1,2), of "()" "()"] obtain d2 where d2:
    "policy_network_issuance scenario_env scenario_params () ()
       (scenario_state(''stage'' \<mapsto> Num 4)) = Inr d2"
    "d2 ''pow_issuance'' =
       Some (Num (if PROOF_OF_STAKE = BEACON_CHAIN \<or> PROOF_OF_STAKE = EIP1559
                  then 13500 / epochs_per_day scenario_env else 0))"
    by blast
  from d1(2) have "d1 ''pow_issuance'' = Some (Num 60)"
    by (simp add: e(3))
  moreover from d2(2) have "d2 ''pow_issuance'' = Some (Num 0)"
    by simp
  ultimately show ?thesis
    using d1(1) d2(1) by blast
qed

subsection \<open>Fee pricing policy\<close>

text \<open>
  Claim C2. When the stage of the previous state is neither \<open>EIP1559\<close> nor
  \<open>PROOF_OF_STAKE\<close>, the fee pricing policy returns \<open>basefee\<close>, \<open>total_basefee\<close>,
  \<open>total_tips_to_miners\<close> and \<open>total_tips_to_validators\<close> all equal to zero, and the
  list of process calls it has made is empty: nothing is sampled.
\<close>

theorem fee_pricing_inactive_zero:
  assumes "previous_state ''stage'' = Some v" and "Stage_call env v = Inr s"
    and "s \<noteq> EIP1559" and "s \<noteq> PROOF_OF_STAKE"
  shows "\<exists>d. policy_eip1559_transaction_pricing env params substep state_history
                previous_state = ([], Inr d) \<and>
              d ''basefee'' = Some (Num 0) \<and>
              d ''total_basefee'' = Some (Num 0) \<and>
              d ''total_tips_to_miners'' = Some (Num 0) \<and>
              d ''total_tips_to_validators'' = Some (Num 0)"
  using assms
  by (simp add: fee_pricing_inactive [where previous_state = previous_state and v = v])

theorem fee_pricing_inactive_zero_witness:
  "(scenario_state(''stage'' \<mapsto> StageV BEACON_CHAIN)) ''stage'' = Some (StageV BEACON_CHAIN) \<and>
   Stage_call scenario_env (StageV BEACON_CHAIN) = Inr BEACON_CHAIN \<and>
   BEACON_CHAIN \<noteq> EIP1559 \<and> BEACON_CHAIN \<noteq> PROOF_OF_STAKE \<and>
   (\<exists>d. policy_eip1559_transaction_pricing scenario_env scenario_params () ()
          (scenario_state(''stage'' \<mapsto> StageV BEACON_CHAIN)) = ([], Inr d) \<and>
        d ''basefee'' = Some (Num 0) \<and>
        d ''total_basefee'' = Some (Num 0) \<and>
        d ''total_tips_to_miners'' = Some (Num 0) \<and>
        d ''total_tips_to_validators'' = Some (Num 0))"
proof -
  have h: "(scenario_state(''stage'' \<mapsto> StageV BEACON_CHAIN)) ''stage'' =
             Some (StageV BEACON_CHAIN)"
    "Stage_call scenario_env (StageV BEACON_CHAIN) = Inr BEACON_CHAIN"
    "BEACON_CHAIN \<noteq> EIP1559" "BEACON_CHAIN \<noteq> PROOF_OF_STAKE"
    by (simp_all add: Stage_call_def)
  from fee_pricing_inactive_zero
      [where previous_state = "scenario_state(''stage'' \<mapsto> StageV BEACON_CHAIN)"
         and v = "StageV BEACON_CHAIN" and env = scenario_env and s = BEACON_CHAIN
         and params = scenario_params and substep = "()" and state_history = "()", OF h]
    h
  show ?thesis by blast
qed

text \<open>
  Claim C3. On a well-formed fee-market-active input within the gas limit, with
  \<open>total_tips = gas_used * sampled_tip\<close>: in stage \<open>PROOF_OF_STAKE\<close> the policy returns
  \<open>total_tips_to_miners = 0\<close> and \<open>total_tips_to_validators = total_tips * dt\<close>; in stage
  \<open>EIP1559\<close> the two are exchanged.
\<close>

theorem tips_split_by_stage:
  assumes "fee_market_input env params previous_state i"
    and "gas_used env i \<le> gas_limit env i"
  shows "\<exists>calls d.
     policy_eip1559_transaction_pricing env params substep state_history previous_state =
       (calls, Inr d) \<and>
     (fi_stage i = PROOF_OF_STAKE \<longrightarrow>
        d ''total_tips_to_miners'' = Some (Num 0) \<and>
        d ''total_tips_to_validators'' =
          Some (Num (gas_used env i * sampled_tip i * fi_dt i))) \<and>
     (fi_stage i = EIP1559 \<longrightarrow>
        d ''total_tips_to_validators'' = Some (Num 0) \<and>
        d ''total_tips_to_miners'' =
          Some (Num (gas_used env i * sampled_tip i * fi_dt i)))"
  using assms(2) by (simp add: fee_pricing_wf [OF assms(1)] total_tips_def)

theorem tips_split_by_stage_witness:
  "(\<exists>calls d.
      policy_eip1559_transaction_pricing scenario_env
        (scenario_params(''gas_target'' \<mapsto> Num 15000000)) () ()
        (scenario_state(''stage'' \<mapsto> StageV PROOF_OF_STAKE)) = (calls, Inr d) \<and>
      d ''total_tips_to_miners'' = Some (Num 0) \<and>
      d ''total_tips_to_validators'' = Some (Num 42000000)) \<and>
   (\<exists>calls d.
      policy_eip1559_transaction_pricing scenario_env
        (scenario_params(''gas_target'' \<mapsto> Num 15000000)) () ()
        (scenario_state(''stage'' \<mapsto> StageV EIP1559)) = (calls, Inr d) \<and>
      d ''total_tips_to_validators'' = Some (Num 0) \<and>
      d ''total_tips_to_miners'' = Some (Num 42000000))"
proof -
  let ?pos = "scenario_inputs\<lparr>fi_stage := PROOF_OF_STAKE, fi_gas_target := 15000000\<rparr>"
  let ?eip = "scenario_inputs\<lparr>fi_stage := EIP1559, fi_gas_target := 15000000\<rparr>"
  have q: "gas_used scenario_env ?pos * sampled_tip ?pos * fi_dt ?pos = 42000000"
    "gas_used scenario_env ?eip * sampled_tip ?eip * fi_dt ?eip = 42000000"
    using scenario_quantities(3) [where s = PROOF_OF_STAKE and g = 15000000]
      scenario_quantities(3) [where s = EIP1559 and g = 15000000]
    by (simp_all add: total_tips_def scenario_quantities(6))
  have w1: "fee_market_input scenario_env (scenario_params(''gas_target'' \<mapsto> Num 15000000))
              (scenario_state(''stage'' \<mapsto> StageV PROOF_OF_STAKE)) ?pos"
    by (rule scenario_fee_market_input) simp
  have w2: "fee_market_input scenario_env (scenario_params(''gas_target'' \<mapsto> Num 15000000))
              (scenario_state(''stage'' \<mapsto> StageV EIP1559)) ?eip"
    by (rule scenario_fee_market_input) simp
  have g1: "gas_used scenario_env ?pos \<le> gas_limit scenario_env ?pos"
    by (simp add: scenario_quantities)
  have g2: "gas_used scenario_env ?eip \<le> gas_limit scenario_env ?eip"
    by (simp add: scenario_quantities)
  from tips_split_by_stage [OF w1 g1, of "()" "()"] obtain c1 d1 where r1:
    "policy_eip1559_transaction_pricing scenario_env
       (scenario_params(''gas_target'' \<mapsto> Num 15000000)) () ()
       (scenario_state(''stage'' \<mapsto> StageV PROOF_OF_STAKE)) = (c1, Inr d1)"
    "fi_stage ?pos = PROOF_OF_STAKE \<longrightarrow>
       d1 ''total_tips_to_miners'' = Some (Num 0) \<and>
       d1 ''total_tips_to_validators'' =
         Some (Num (gas_used scenario_env ?pos * sampled_tip ?pos * fi_dt ?pos))"
    by blast
  from tips_split_by_stage [OF w2 g2, of "()" "()"] obtain c2 d2 where r2:
    "policy_eip1559_transaction_pricing scenario_env
       (scenario_params(''gas_target'' \<mapsto> Num 15000000)) () ()
       (scenario_state(''stage'' \<mapsto> StageV EIP1559)) = (c2, Inr d2)"
    "fi_stage ?eip = EIP1559 \<longrightarrow>
       d2 ''total_tips_to_validators'' = Some (Num 0) \<and>
       d2 ''total_tips_to_miners'' =
         Some (Num (gas_used scenario_env ?eip * sampled_tip ?eip * fi_dt ?eip))"
    by blast
  from r1(2) have a: "d1 ''total_tips_to_miners'' = Some (Num 0)"
    "d1 ''total_tips_to_validators'' = Some (Num 42000000)"
    unfolding q by simp_all
  from r2(2) have b: "d2 ''total_tips_to_validators'' = Some (Num 0)"
    "d2 ''total_tips_to_miners'' = Some (Num 42000000)"
    unfolding q by simp_all
  from r1(1) r2(1) a b show ?thesis by blast
qed

text \<open>
  Claim C4. On a well-formed fee-market-active input the policy raises the assertion
  error of the block size check if and only if \<open>gas_used\<close> is strictly greater than
  \<open>gas_target * ELASTICITY_MULTIPLIER * slots_per_epoch\<close>, and it returns a result if and
  only if \<open>gas_used\<close> is at most that limit. The scenario with the limit equal to
  \<open>gas_used\<close> returns; with the limit one unit below \<open>gas_used\<close> it raises.
\<close>

theorem block_too_large_iff:
  assumes "fee_market_input env params previous_state i"
  shows "((\<exists>calls. policy_eip1559_transaction_pricing env params substep state_history
                     previous_state =
                   (calls, Inl (AssertionError ''invalid block: too much gas used''))) \<longleftrightarrow>
          gas_limit env i < gas_used env i) \<and>
         ((\<exists>calls d. policy_eip1559_transaction_pricing env params substep state_history
                       previous_state = (calls, Inr d)) \<longleftrightarrow>
          gas_used env i \<le> gas_limit env i)"
  by (auto simp add: fee_pricing_wf [OF assms] not_le)

theorem block_too_large_iff_witness:
  "fee_market_input scenario_env (scenario_params(''gas_target'' \<mapsto> Num 328125))
     (scenario_state(''stage'' \<mapsto> StageV EIP1559))
     (scenario_inputs\<lparr>fi_stage := EIP1559, fi_gas_target := 328125\<rparr>) \<and>
   gas_used scenario_env (scenario_inputs\<lparr>fi_stage := EIP1559, fi_gas_target := 328125\<rparr>) =
   gas_limit scenario_env (scenario_inputs\<lparr>fi_stage := EIP1559, fi_gas_target := 328125\<rparr>) \<and>
   (\<exists>calls d. policy_eip1559_transaction_pricing scenario_env
                 (scenario_params(''gas_target'' \<mapsto> Num 328125)) () ()
                 (scenario_state(''stage'' \<mapsto> StageV EIP1559)) = (calls, Inr d)) \<and>
   fee_market_input scenario_env (scenario_params(''gas_target'' \<mapsto> Num (20999999 / 64)))
     (scenario_state(''stage'' \<mapsto> StageV EIP1559))
     (scenario_inputs\<lparr>fi_stage := EIP1559, fi_gas_target := 20999999 / 64\<rparr>) \<and>
   gas_used scenario_env
     (scenario_inputs\<lparr>fi_stage := EIP1559, fi_gas_target := 20999999 / 64\<rparr>) =
   gas_limit scenario_env
     (scenario_inputs\<lparr>fi_stage := EIP1559, fi_gas_target := 20999999 / 64\<rparr>) + 1 \<and>
   (\<exists>calls. policy_eip1559_transaction_pricing scenario_env
               (scenario_params(''gas_target'' \<mapsto> Num (20999999 / 64))) () ()
               (scenario_state(''stage'' \<mapsto> StageV EIP1559)) =
             (calls, Inl (AssertionError ''invalid block: too much gas used'')))"
proof -
  let ?at = "scenario_inputs\<lparr>fi_stage := EIP1559, fi_gas_target := 328125\<rparr>"
  let ?above = "scenario_inputs\<lparr>fi_stage := EIP1559, fi_gas_target := 20999999 / 64\<rparr>"
  have w1: "fee_market_input scenario_env (scenario_params(''gas_target'' \<mapsto> Num 328125))
              (scenario_state(''stage'' \<mapsto> StageV EIP1559)) ?at"
    by (rule scenario_fee_market_input) simp
  have w2: "fee_market_input scenario_env
              (scenario_params(''gas_target'' \<mapsto> Num (20999999 / 64)))
              (scenario_state(''stage'' \<mapsto> StageV EIP1559)) ?above"
    by (rule scenario_fee_market_input) simp
  have g1: "gas_used scenario_env ?at = gas_limit scenario_env ?at"
    by (simp add: scenario_quantities)
  have g2: "gas_used scenario_env ?above = gas_limit scenario_env ?above + 1"
    by (simp add: scenario_quantities)
  from g1 have le: "gas_used scenario_env ?at \<le> gas_limit scenario_env ?at"
    by simp
  from g2 have gt: "gas_limit scenario_env ?above < gas_used scenario_env ?above"
    by simp
  from block_too_large_iff [OF w1, of "()" "()"] le
  have r1: "\<exists>calls d. policy_eip1559_transaction_pricing scenario_env
                 (scenario_params(''gas_target'' \<mapsto> Num 328125)) () ()
                 (scenario_state(''stage'' \<mapsto> StageV EIP1559)) = (calls, Inr d)"
    by blast
  from block_too_large_iff [OF w2, of "()" "()"] gt
  have r2: "\<exists>calls. policy_eip1559_transaction_pricing scenario_env
               (scenario_params(''gas_target'' \<mapsto> Num (20999999 / 64))) () ()
               (scenario_state(''stage'' \<mapsto> StageV EIP1559)) =
             (calls, Inl (AssertionError ''invalid block: too much gas used''))"
    by blast
  from w1 g1 r1 w2 g2 r2 show ?thesis by blast
qed

text \<open>
  Claim C5 says that after the first timestep a base fee sample that differs from the
  previous base fee by more than \<open>slots_per_epoch / BASE_FEE_MAX_CHANGE_DENOMINATOR\<close> of
  the previous value is a fatal invariant violation. The assertion that would check this
  is commented out in the source. In the scenario the timestep is 2, the previous base
  fee is 1 and the sample is 100, a change of 99 against a bound of 4, and the policy
  returns normally with the sample.
\<close>

theorem basefee_change_unchecked_counterexample:
  "1 < (2::real) \<and>
   \<not> \<bar>100 - 1\<bar> / 1 \<le> slots_per_epoch scenario_env / (8::real) \<and>
   scenario_state ''timestep'' = Some (Num 2) \<and>
   scenario_state ''basefee'' = Some (Num 1) \<and>
   scenario_params ''BASE_FEE_MAX_CHANGE_DENOMINATOR'' = Some (Num 8) \<and>
   policy_eip1559_transaction_pricing scenario_env scenario_params () () scenario_state =
     ([(''eip1559_basefee_process'', 1, 2), (''eip1559_tip_process'', 1, 2),
       (''daily_transactions_process'', 1, 2)],
      Inr [''basefee'' \<mapsto> Num 100,
           ''total_basefee'' \<mapsto> Num 2100000000,
           ''total_tips_to_miners'' \<mapsto> Num 42000000,
           ''total_tips_to_validators'' \<mapsto> Num 0])"
  by (simp add: policy_eip1559_transaction_pricing_def scenario_env_def scenario_params_def
      scenario_state_def constant_process_def Stage_call_def getitem_def py_mul_def
      py_truediv_def py_le_def call_process_def bind_exec_no_call_Inr bind_exec_call
      no_call_def)

text \<open>
  Claim C5, as amended: the policy does not check the change of the base fee. On every
  well-formed fee-market-active input within the gas limit, whatever the timestep, the
  previous base fee and \<open>BASE_FEE_MAX_CHANGE_DENOMINATOR\<close>, it returns a result whose
  \<open>basefee\<close> is the new sample, unchanged.
\<close>

theorem basefee_change_unchecked:
  assumes "fee_market_input env params previous_state i"
    and "gas_used env i \<le> gas_limit env i"
  shows "\<exists>calls d.
     policy_eip1559_transaction_pricing env params substep state_history previous_state =
       (calls, Inr d) \<and>
     d ''basefee'' = Some (Num (sampled_basefee i))"
  using assms(2) by (simp add: fee_pricing_wf [OF assms(1)])

theorem basefee_change_unchecked_witness:
  "fee_market_input scenario_env (scenario_params(''gas_target'' \<mapsto> Num 15000000))
     (scenario_state(''stage'' \<mapsto> StageV EIP1559))
     (scenario_inputs\<lparr>fi_stage := EIP1559, fi_gas_target := 15000000\<rparr>) \<and>
   gas_used scenario_env (scenario_inputs\<lparr>fi_stage := EIP1559, fi_gas_target := 15000000\<rparr>)
     \<le> gas_limit scenario_env
         (scenario_inputs\<lparr>fi_stage := EIP1559, fi_gas_target := 15000000\<rparr>) \<and>
   1 < fi_timestep (scenario_inputs\<lparr>fi_stage := EIP1559, fi_gas_target := 15000000\<rparr>) \<and>
   \<not> \<bar>100 - fi_previous_basefee
               (scenario_inputs\<lparr>fi_stage := EIP1559, fi_gas_target := 15000000\<rparr>)\<bar>
       / fi_previous_basefee (scenario_inputs\<lparr>fi_stage := EIP1559, fi_gas_target := 15000000\<rparr>)
     \<le> slots_per_epoch scenario_env
         / fi_BASE_FEE_MAX_CHANGE_DENOMINATOR
             (scenario_inputs\<lparr>fi_stage := EIP1559, fi_gas_target := 15000000\<rparr>) \<and>
   (\<exists>calls d.
      policy_eip1559_transaction_pricing scenario_env
        (scenario_params(''gas_target'' \<mapsto> Num 15000000)) () ()
        (scenario_state(''stage'' \<mapsto> StageV EIP1559)) = (calls, Inr d) \<and>
      d ''basefee'' = Some (Num 100))"
proof -
  let ?i = "scenario_inputs\<lparr>fi_stage := EIP1559, fi_gas_target := 15000000\<rparr>"
  have w: "fee_market_input scenario_env (scenario_params(''gas_target'' \<mapsto> Num 15000000))
             (scenario_state(''stage'' \<mapsto> StageV EIP1559)) ?i"
    by (rule scenario_fee_market_input) simp
  have g: "gas_used scenario_env ?i \<le> gas_limit scenario_env ?i"
    by (simp add: scenario_quantities)
  have v: "1 < fi_timestep ?i"
    "\<not> \<bar>100 - fi_previous_basefee ?i\<bar> / fi_previous_basefee ?i
       \<le> slots_per_epoch scenario_env / fi_BASE_FEE_MAX_CHANGE_DENOMINATOR ?i"
    by (simp_all add: scenario_inputs_def scenario_env_def)
  from basefee_change_unchecked [OF w g, of "()" "()"]
  have r: "\<exists>calls d.
      policy_eip1559_transaction_pricing scenario_env
        (scenario_params(''gas_target'' \<mapsto> Num 15000000)) () ()
        (scenario_state(''stage'' \<mapsto> StageV EIP1559)) = (calls, Inr d) \<and>
      d ''basefee'' = Some (Num 100)"
    unfolding scenario_quantities(4) .
  from w g v r show ?thesis by blast
qed

text \<open>
  Claim C9. When the stage is neither \<open>EIP1559\<close> nor \<open>PROOF_OF_STAKE\<close>, the fee pricing
  policy reads the key \<open>stage\<close> of the previous state and nothing else: with an empty
  parameters mapping and a state that holds only \<open>stage\<close> it returns the all-zero
  result without an error, and its result on any parameters and any state with that
  stage is the same.
\<close>

theorem fee_pricing_inactive_reads_stage_only:
  assumes "previous_state ''stage'' = Some v" and "Stage_call env v = Inr s"
    and "s \<noteq> EIP1559" and "s \<noteq> PROOF_OF_STAKE"
  shows "policy_eip1559_transaction_pricing env Map.empty substep state_history
             [''stage'' \<mapsto> v] =
           ([], Inr [''basefee'' \<mapsto> Num 0, ''total_basefee'' \<mapsto> Num 0,
                     ''total_tips_to_miners'' \<mapsto> Num 0,
                     ''total_tips_to_validators'' \<mapsto> Num 0]) \<and>
         policy_eip1559_transaction_pricing env params substep state_history previous_state =
           policy_eip1559_transaction_pricing env Map.empty substep state_history
             [''stage'' \<mapsto> v]"
proof -
  have "[''stage'' \<mapsto> v] ''stage'' = Some v"
    by simp
  from fee_pricing_inactive
      [where previous_state = "[''stage'' \<mapsto> v]" and v = v and env = env and s = s
         and params = Map.empty and substep = substep and state_history = state_history,
       OF this assms(2-4)]
    fee_pricing_inactive
      [where previous_state = previous_state and v = v and env = env and s = s
         and params = params and substep = substep and state_history = state_history,
       OF assms]
  show ?thesis by simp
qed

theorem fee_pricing_inactive_reads_stage_only_witness:
  "policy_eip1559_transaction_pricing scenario_env Map.empty () ()
       [''stage'' \<mapsto> StageV BEACON_CHAIN] =
     ([], Inr [''basefee'' \<mapsto> Num 0, ''total_basefee'' \<mapsto> Num 0,
               ''total_tips_to_miners'' \<mapsto> Num 0,
               ''total_tips_to_validators'' \<mapsto> Num 0]) \<and>
   policy_eip1559_transaction_pricing scenario_env scenario_params () ()
       (scenario_state(''stage'' \<mapsto> StageV BEACON_CHAIN)) =
     policy_eip1559_transaction_pricing scenario_env Map.empty () ()
       [''stage'' \<mapsto> StageV BEACON_CHAIN]"
proof -
  have h: "(scenario_state(''stage'' \<mapsto> StageV BEACON_CHAIN)) ''stage'' =
             Some (StageV BEACON_CHAIN)"
    "Stage_call scenario_env (StageV BEACON_CHAIN) = Inr BEACON_CHAIN"
    "BEACON_CHAIN \<noteq> EIP1559" "BEACON_CHAIN \<noteq> PROOF_OF_STAKE"
    by (simp_all add: Stage_call_def)
  show ?thesis
    by (rule fee_pricing_inactive_reads_stage_only
        [where previous_state = "scenario_state(''stage'' \<mapsto> StageV BEACON_CHAIN)"
           and v = "StageV BEACON_CHAIN" and env = scenario_env and s = BEACON_CHAIN
           and params = scenario_params and substep = "()" and state_history = "()",
         OF h])
qed

text \<open>
  Claim C10. The result of the fee pricing policy does not depend on the value of the
  previous state's \<open>basefee\<close>: for two previous states that differ only in the value
  stored under that key, the policy returns the same calls and the same result. This
  holds in every stage, so in particular in the fee-market-active ones.
\<close>

theorem fee_pricing_ignores_previous_basefee:
  assumes "previous_state ''basefee'' = Some v"
  shows "policy_eip1559_transaction_pricing env params substep state_history
           (previous_state(''basefee'' \<mapsto> v')) =
         policy_eip1559_transaction_pricing env params substep state_history previous_state"
  using assms
  by (simp add: policy_eip1559_transaction_pricing_def getitem_upd getitem_Some
      bind_exec_no_call_Inr cong: if_cong)

theorem fee_pricing_ignores_previous_basefee_witness:
  "scenario_state ''basefee'' = Some (Num 1) \<and>
   policy_eip1559_transaction_pricing scenario_env scenario_params () ()
     (scenario_state(''basefee'' \<mapsto> Num 99)) =
   policy_eip1559_transaction_pricing scenario_env scenario_params () () scenario_state"
proof -
  have h: "scenario_state ''basefee'' = Some (Num 1)"
    by (simp add: scenario_state_def)
  from fee_pricing_ignores_previous_basefee
    [where previous_state = scenario_state and v = "Num 1" and v' = "Num 99"
       and env = scenario_env and params = scenario_params and substep = "()"
       and state_history = "()", OF h] h
  show ?thesis by blast
qed

subsection \<open>State update functions\<close>

lemma update_eth_supply_Num:
  assumes "previous_state ''eth_supply'' = Some (Num initial_supply)"
    and "policy_input ''network_issuance'' = Some (Num i)"
  shows "update_eth_supply params substep state_history previous_state policy_input =
           Inr (''eth_supply'', Num (initial_supply + i))"
  using assms by (simp add: update_eth_supply_def exec_simps)

lemma apply_issuances_foldl:
  "previous_state ''eth_supply'' = Some (Num initial_supply) \<Longrightarrow>
   \<exists>st. apply_issuances params policy_input previous_state issuances = Inr st \<and>
        st ''eth_supply'' = Some (Num (foldl (+) initial_supply issuances))"
proof (induction issuances arbitrary: previous_state initial_supply)
  case Nil
  then show ?case by simp
next
  case (Cons i issuances)
  have step: "update_eth_supply params () () previous_state
                (policy_input(''network_issuance'' \<mapsto> Num i)) =
              Inr (''eth_supply'', Num (initial_supply + i))"
    using Cons.prems by (simp add: update_eth_supply_def exec_simps)
  have "(previous_state(''eth_supply'' \<mapsto> Num (initial_supply + i))) ''eth_supply'' =
          Some (Num (initial_supply + i))"
    by simp
  from Cons.IH [of "previous_state(''eth_supply'' \<mapsto> Num (initial_supply + i))"
      "initial_supply + i", OF this]
  obtain st where
    "apply_issuances params policy_input
       (previous_state(''eth_supply'' \<mapsto> Num (initial_supply + i))) issuances = Inr st"
    and "st ''eth_supply'' = Some (Num (foldl (+) (initial_supply + i) issuances))"
    by blast
  then have "apply_issuances params policy_input previous_state (i # issuances) = Inr st"
    and "st ''eth_supply'' = Some (Num (foldl (+) initial_supply (i # issuances)))"
    by (simp_all add: step)
  then show ?case by blast
qed

lemma apply_issuances_append:
  "apply_issuances params policy_input previous_state (xs @ ys) =
   bind_result (apply_issuances params policy_input previous_state xs)
     (\<lambda>st. apply_issuances params policy_input st ys)"
  by (induction xs arbitrary: previous_state)
    (simp_all add: bind_result_def split: sum.splits prod.splits)

lemma foldl_plus_regroup:
  assumes assoc: "\<forall>a b c :: 'n :: plus. a + b + c = a + (b + c)"
  shows "foldl (+) (a + i) issuances = a + foldl (+) (i :: 'n) issuances"
proof (induction issuances arbitrary: i)
  case Nil
  show ?case by simp
next
  case (Cons k issuances)
  from assoc have "a + i + k = a + (i + k)"
    by blast
  with Cons.IH [of "i + k"] show ?case
    by simp
qed

text \<open>For exact numbers the left-to-right sum is the initial supply plus the sum.\<close>

lemma foldl_plus_sum_list:
  "foldl (+) (a :: 'n :: monoid_add) issuances = a + sum_list issuances"
  by (induction issuances arbitrary: a) (simp_all add: add.assoc)

text \<open>Rounding within a binade, and the float sums of the counterexample.\<close>

lemma round_binary64_in_binade:
  assumes "pow2 k \<le> \<bar>x\<bar>" and "\<bar>x\<bar> < pow2 (k + 1)" and "- 1022 \<le> k"
  shows "round_binary64 x = of_int (round_half_even (x / pow2 (k - 52))) * pow2 (k - 52)"
proof -
  have "0 < pow2 k"
    by (simp add: pow2_def)
  with assms(1) have nz: "x \<noteq> 0" and px: "0 < \<bar>x\<bar>"
    by auto
  have powr: "pow2 n = 2 powr (of_int n)" for n
    by (simp add: pow2_def powr_int)
  from assms(1,2) have "\<lfloor>log 2 \<bar>x\<bar>\<rfloor> = k"
    using floor_log_eq_powr_iff [of "\<bar>x\<bar>" 2 k] px by (simp add: powr)
  with nz assms(3) show ?thesis
    by (simp add: round_binary64_def max_def Let_def)
qed

lemma binary64_sums:
  "Float 10000000000000000 + Float 1 = Float 10000000000000000"
  "Float 1 + Float 1 = Float 2"
  "Float 10000000000000000 + Float 2 = Float 10000000000000002"
proof -
  have "round_binary64 (10000000000000000 + 1) = 10000000000000000"
    by (subst round_binary64_in_binade [where k = 53])
      (simp_all add: pow2_def round_half_even_def)
  then show "Float 10000000000000000 + Float 1 = Float 10000000000000000"
    by (simp add: plus_binary64_def)
  have "round_binary64 (1 + 1) = 2"
    by (subst round_binary64_in_binade [where k = 1])
      (simp_all add: pow2_def round_half_even_def)
  then show "Float 1 + Float 1 = Float 2"
    by (simp add: plus_binary64_def)
  have "round_binary64 (10000000000000000 + 2) = 10000000000000002"
    by (subst round_binary64_in_binade [where k = 53])
      (simp_all add: pow2_def round_half_even_def)
  then show "Float 10000000000000000 + Float 2 = Float 10000000000000002"
    by (simp add: plus_binary64_def)
qed

text \<open>
  Claim C7 says that \<open>N\<close> applications of the supply updater yield
  \<open>S0 + (i_1 + ... + i_N)\<close>, independent of grouping. The updater adds with Python's
  \<^verbatim>\<open>+\<close>, which rounds on floats. From a supply of \<open>10 ^ 16\<close>, two timesteps with the
  issuance 1.0 each leave the supply at \<open>10 ^ 16\<close>: \<open>10 ^ 16 + 1\<close> lies halfway between
  two floats and rounds to the even one. But \<open>S0 + (1.0 + 1.0)\<close> is \<open>10 ^ 16 + 2\<close>, and
  so is the supply after one timestep with the issuance \<open>1.0 + 1.0\<close>.
\<close>

theorem eth_supply_float_sum_counterexample:
  "apply_issuances Map.empty Map.empty [''eth_supply'' \<mapsto> Num (Float 10000000000000000)]
     [Float 1, Float 1] =
     Inr [''eth_supply'' \<mapsto> Num (Float 10000000000000000)] \<and>
   Float 10000000000000000 + (Float 1 + Float 1) = Float 10000000000000002 \<and>
   apply_issuances Map.empty Map.empty [''eth_supply'' \<mapsto> Num (Float 10000000000000000)]
     [Float 1 + Float 1] =
     Inr [''eth_supply'' \<mapsto> Num (Float 10000000000000002)] \<and>
   Float 10000000000000000 \<noteq> Float 10000000000000002"
  by (simp add: update_eth_supply_def getitem_def bind_result_def py_add_def binary64_sums)

text \<open>
  Claim C7, as amended: the supply updater returns the previous \<open>eth_supply\<close> plus
  \<open>network_issuance\<close>, added as the numbers' type adds. Applied over the issuance values
  of consecutive timesteps, starting from \<open>initial_supply\<close>, it yields the left-to-right
  sum \<open>((initial_supply + i_1) + i_2) + ... + i_N\<close>, and applying it over \<open>xs @ ys\<close> is
  applying it over \<open>xs\<close> and then over \<open>ys\<close>. Where the addition is associative, as it is
  for exact numbers, that sum is \<open>initial_supply + (i_1 + ... + i_N)\<close>.
\<close>

theorem eth_supply_left_to_right_sum:
  assumes "previous_state ''eth_supply'' = Some (Num (initial_supply :: 'n :: plus))"
  shows "(policy_input ''network_issuance'' = Some (Num i) \<longrightarrow>
            update_eth_supply params substep state_history previous_state policy_input =
              Inr (''eth_supply'', Num (initial_supply + i))) \<and>
         (\<exists>st. apply_issuances params policy_input previous_state issuances = Inr st \<and>
               st ''eth_supply'' = Some (Num (foldl (+) initial_supply issuances))) \<and>
         apply_issuances params policy_input previous_state (xs @ ys) =
           bind_result (apply_issuances params policy_input previous_state xs)
             (\<lambda>st. apply_issuances params policy_input st ys) \<and>
         ((\<forall>a b c :: 'n. a + b + c = a + (b + c)) \<longrightarrow>
            (\<exists>st. apply_issuances params policy_input previous_state (j # js) = Inr st \<and>
                  st ''eth_supply'' = Some (Num (initial_supply + foldl (+) j js))))"
proof -
  have "\<exists>st. apply_issuances params policy_input previous_state (j # js) = Inr st \<and>
             st ''eth_supply'' = Some (Num (initial_supply + foldl (+) j js))"
    if "\<forall>a b c :: 'n. a + b + c = a + (b + c)"
    using apply_issuances_foldl [where previous_state = previous_state
        and initial_supply = initial_supply and params = params
        and policy_input = policy_input and issuances = "j # js", OF assms]
      foldl_plus_regroup [OF that, of initial_supply j js]
    by simp
  with assms show ?thesis
    using apply_issuances_foldl [where previous_state = previous_state
        and initial_supply = initial_supply and params = params
        and policy_input = policy_input and issuances = issuances, OF assms]
    by (simp add: update_eth_supply_Num apply_issuances_append)
qed

theorem eth_supply_left_to_right_sum_witness:
  "scenario_state ''eth_supply'' = Some (Num 116250000) \<and>
   (\<forall>a b c :: real. a + b + c = a + (b + c)) \<and>
   update_eth_supply scenario_params () () scenario_state [''network_issuance'' \<mapsto> Num 64] =
     Inr (''eth_supply'', Num 116250064) \<and>
   (\<exists>st. apply_issuances scenario_params [''network_issuance'' \<mapsto> Num 64] scenario_state
           [64, - 10, 6] = Inr st \<and>
         st ''eth_supply'' = Some (Num (116250000 + 64 + - 10 + 6)) \<and>
         st ''eth_supply'' = Some (Num (116250000 + (64 + - 10 + 6)))) \<and>
   apply_issuances scenario_params [''network_issuance'' \<mapsto> Num 64] scenario_state
       ([64] @ [- 10, 6]) =
     bind_result
       (apply_issuances scenario_params [''network_issuance'' \<mapsto> Num 64] scenario_state [64])
       (\<lambda>st. apply_issuances scenario_params [''network_issuance'' \<mapsto> Num 64] st [- 10, 6])"
proof -
  have h: "scenario_state ''eth_supply'' = Some (Num 116250000)"
    by (simp add: scenario_state_def)
  have p: "[''network_issuance'' \<mapsto> Num (64::real)] ''network_issuance'' = Some (Num 64)"
    by simp
  have assoc: "\<forall>a b c :: real. a + b + c = a + (b + c)"
    by simp
  note t = eth_supply_left_to_right_sum [where previous_state = scenario_state
      and initial_supply = 116250000
      and policy_input = "[''network_issuance'' \<mapsto> Num 64]" and i = 64
      and params = scenario_params and substep = "()" and state_history = "()"
      and issuances = "[64, - 10, 6]" and xs = "[64]" and ys = "[- 10, 6]"
      and j = 64 and js = "[- 10, 6]", OF h]
  from t p have a: "update_eth_supply scenario_params () () scenario_state
      [''network_issuance'' \<mapsto> Num 64] = Inr (''eth_supply'', Num (116250000 + 64))"
    by blast
  from t obtain st where st:
    "apply_issuances scenario_params [''network_issuance'' \<mapsto> Num 64] scenario_state
       [64, - 10, 6] = Inr st"
    "st ''eth_supply'' = Some (Num (foldl (+) 116250000 [64, - 10, 6]))"
    by blast
  from t assoc obtain st' where st':
    "apply_issuances scenario_params [''network_issuance'' \<mapsto> Num 64] scenario_state
       [64, - 10, 6] = Inr st'"
    "st' ''eth_supply'' = Some (Num (116250000 + foldl (+) 64 [- 10, 6]))"
    by blast
  from st(1) st'(1) have same: "st' = st"
    by simp
  from a have a': "update_eth_supply scenario_params () () scenario_state
      [''network_issuance'' \<mapsto> Num 64] = Inr (''eth_supply'', Num 116250064)"
    by simp
  from st(2) have l: "st ''eth_supply'' = Some (Num (116250000 + 64 + - 10 + 6))"
    by simp
  from st'(2) same have r: "st ''eth_supply'' = Some (Num (116250000 + (64 + - 10 + 6)))"
    by simp
  from t have g:
    "apply_issuances scenario_params [''network_issuance'' \<mapsto> Num 64] scenario_state
       ([64] @ [- 10, 6]) =
     bind_result
       (apply_issuances scenario_params [''network_issuance'' \<mapsto> Num 64] scenario_state [64])
       (\<lambda>st. apply_issuances scenario_params [''network_issuance'' \<mapsto> Num 64] st [- 10, 6])"
    by blast
  from h assoc a' st(1) l r g show ?thesis by blast
qed

text \<open>
  Claim C8. The price updater calls \<open>eth_price_process\<close> once, at
  \<open>(run, timestep * dt)\<close>, and returns that sample under the key \<open>eth_price\<close>. Its
  result is the same for every policy input and for every previous value of
  \<open>eth_price\<close>.
\<close>

theorem eth_price_pass_through:
  assumes "params ''dt'' = Some (Num dt)"
    and "params ''eth_price_process'' = Some (Proc eth_price_process)"
    and "previous_state ''run'' = Some (Num run)"
    and "previous_state ''timestep'' = Some (Num timestep)"
  shows "update_eth_price params substep state_history previous_state policy_input =
           ([(''eth_price_process'', run, timestep * dt)],
            Inr (''eth_price'', Num (eth_price_process run (timestep * dt)))) \<and>
         update_eth_price params substep state_history
             (previous_state(''eth_price'' \<mapsto> v)) policy_input' =
           update_eth_price params substep state_history previous_state policy_input"
  using assms by (simp add: update_eth_price_def exec_simps no_call_def)

theorem eth_price_pass_through_witness:
  "scenario_params ''dt'' = Some (Num 1) \<and>
   scenario_params ''eth_price_process'' = Some (Proc (ramp_process 3000)) \<and>
   scenario_state ''run'' = Some (Num 1) \<and>
   scenario_state ''timestep'' = Some (Num 2) \<and>
   update_eth_price scenario_params () () scenario_state Map.empty =
     ([(''eth_price_process'', 1, 2)], Inr (''eth_price'', Num 3002)) \<and>
   update_eth_price scenario_params () () (scenario_state(''eth_price'' \<mapsto> Num 1))
       [''network_issuance'' \<mapsto> Num 64] =
     update_eth_price scenario_params () () scenario_state Map.empty"
proof -
  have h: "scenario_params ''dt'' = Some (Num 1)"
    "scenario_params ''eth_price_process'' = Some (Proc (ramp_process 3000))"
    "scenario_state ''run'' = Some (Num 1)"
    "scenario_state ''timestep'' = Some (Num 2)"
    by (simp_all add: scenario_params_def scenario_state_def)
  from eth_price_pass_through [where params = scenario_params and dt = 1
      and eth_price_process = "ramp_process 3000" and previous_state = scenario_state
      and run = 1 and timestep = 2 and substep = "()" and state_history = "()"
      and policy_input = Map.empty and v = "Num 1"
      and policy_input' = "[''network_issuance'' \<mapsto> Num 64]", OF h]
  have "update_eth_price scenario_params () () scenario_state Map.empty =
     ([(''eth_price_process'', 1, 2)], Inr (''eth_price'', Num 3002))"
    and "update_eth_price scenario_params () () (scenario_state(''eth_price'' \<mapsto> Num 1))
       [''network_issuance'' \<mapsto> Num 64] =
     update_eth_price scenario_params () () scenario_state Map.empty"
    by (simp_all add: ramp_process_def)
  with h show ?thesis by blast
qed

end
